theory Spec2Isabelle
  imports Complex_Main "HOL-Library.Multiset"
begin

section \<open>The dissociation engine of \<open>nanoCAT.bde.dissociate_xyn_v2\<close>\<close>

text \<open>
  A shallow embedding of the class \<open>MolDissociater\<close> and of the module-level helpers of
  \<open>src/nanoCAT/bde/dissociate_xyn_v2.py\<close>.

  Conventions of the embedding:
  \<^item> Python integers are \<open>int\<close>; the entries of an integer NumPy array are 64-bit, so
    array arithmetic goes through \<open>wrap64\<close> and building an array from a Python
    integer outside the 64-bit range raises \<open>OverflowError\<close>.
  \<^item> Cartesian coordinates and distances are \<open>real\<close>: the rounding of floating point
    arithmetic is not part of the model.
  \<^item> An exception is a value \<open>Inl e\<close> of the sum type \<open>error + 'a\<close>.
  \<^item> A generator is the pair of the list of the items it yields and of the exception
    that ends it, if any.
\<close>

subsection \<open>Exceptions\<close>

datatype error =
    AttributeError
  | IndexError
  | KeyError
  | TypeError
  | OverflowError
  | MoleculeError
  | ValueError
  | AbsentAtoms "int list"
    \<comment> \<open>the \<open>ValueError\<close> built by \<open>MolDissociater._ValueError\<close>, with the array \<open>diff\<close> of its message\<close>

fun bind_err :: "error + 'a \<Rightarrow> ('a \<Rightarrow> error + 'b) \<Rightarrow> error + 'b" where
  "bind_err (Inl e) f = Inl e"
| "bind_err (Inr x) f = f x"

subsection \<open>Atoms, molecules and the engine\<close>

record atom =
  coords :: "real \<times> real \<times> real"
  ResidueNumber :: int
    \<comment> \<open>\<open>Atom.properties.pdb_info.ResidueNumber\<close>\<close>
  topology_prop :: "string option"
    \<comment> \<open>\<open>Atom.properties.topology\<close>; \<open>None\<close> while the key is unset\<close>

text \<open>
  A PLAMS molecule: its atoms in order and the entries of \<open>Molecule.properties\<close> that
  the engine reads or writes (\<open>indices\<close> is the empty list while the key is unset).
\<close>

record molecule =
  atoms :: "atom list"
  indices :: "int list"
  job_path :: "string list"
  core_topology :: string
  lig_residue :: "int list"
  df_index :: string

record MolDissociater =
  mol :: molecule
  core_idx :: "int list"
  ligand_count :: int
  max_dist :: real
  topology :: "int \<rightharpoonup> string"
  xyz_coords :: "(real \<times> real \<times> real) list"
    \<comment> \<open>the private \<open>_coords\<close>, the array \<open>mol.as_array()\<close> taken by \<open>__init__\<close>\<close>
  partition_dict :: "int \<rightharpoonup> int list"
    \<comment> \<open>the private \<open>_partition_dict\<close>\<close>

subsection \<open>\<open>partition_mol\<close>\<close>

text \<open>\<open>enumerate(xs, 1)\<close>.\<close>

definition enumerate1 :: "'a list \<Rightarrow> (int \<times> 'a) list" where
  "enumerate1 xs = zip (map int [1..<Suc (length xs)]) xs"

text \<open>
  The body of the \<open>for\<close> loop of \<open>partition_mol\<close>. The dictionary \<open>list_append\<close> of the
  source has the keys of \<open>ret\<close> and maps each to the bound method \<open>ret[key].append\<close>, so
  that \<open>list_append[key](i)\<close> appends \<open>i\<close> to \<open>ret[key]\<close> and raises \<open>KeyError\<close> exactly
  when \<open>key\<close> is not yet in \<open>ret\<close>; the model keeps \<open>ret\<close> alone.
\<close>

fun partition_loop ::
  "(atom \<Rightarrow> int) \<Rightarrow> (int \<times> atom) list \<Rightarrow> (int \<rightharpoonup> int list) \<Rightarrow> (int \<rightharpoonup> int list)" where
  "partition_loop func [] ret = ret"
| "partition_loop func ((i, a) # rest) ret =
     (let key = func a in
      case ret key of
        Some l \<Rightarrow> partition_loop func rest (ret(key \<mapsto> l @ [i]))
      | None \<Rightarrow> partition_loop func rest (ret(key \<mapsto> [i])))"

definition partition_mol ::
  "MolDissociater \<Rightarrow> (atom \<Rightarrow> int) option \<Rightarrow> (int \<rightharpoonup> int list)" where
  "partition_mol self key =
     (let func = (case key of Some f \<Rightarrow> f | None \<Rightarrow> ResidueNumber)
      in partition_loop func (enumerate1 (atoms (mol self))) Map.empty)"

subsection \<open>Integer arrays and \<open>as_array\<close>\<close>

definition int64 :: "int \<Rightarrow> bool" where
  "int64 x \<longleftrightarrow> - (2 ^ 63) \<le> x \<and> x < 2 ^ 63"

definition wrap64 :: "int \<Rightarrow> int" where
  "wrap64 x = (x + 2 ^ 63) mod 2 ^ 64 - 2 ^ 63"

text \<open>
  The argument of the index parameters, annotated \<open>Union[int, Iterable[int]]\<close>: one
  integer, a re-iterable collection of integers, or a one-shot iterator over integers.
\<close>

datatype index_input = Single int | Sequence "int list" | Iterator "int list"

text \<open>An integer array of dimension 0 or 1.\<close>

datatype ndarray = Arr0 int | Arr1 "int list"

fun ndim :: "ndarray \<Rightarrow> nat" where
  "ndim (Arr0 x) = 0"
| "ndim (Arr1 xs) = 1"

text \<open>
  \<open>as_array(iterable, dtype=int, ndmin=...)\<close>. An iterator goes through \<open>np.fromiter\<close>,
  anything else through \<open>np.array\<close>. When the array has fewer than \<open>ndmin\<close> dimensions
  the source evaluates \<open>ret.ndmin\<close>, an attribute that arrays do not have.
\<close>

definition as_array :: "index_input \<Rightarrow> nat \<Rightarrow> error + ndarray" where
  "as_array iterable ndmin =
     bind_err
       (case iterable of
          Iterator xs \<Rightarrow> (if list_all int64 xs then Inr (Arr1 xs) else Inl OverflowError)
        | Sequence xs \<Rightarrow> (if list_all int64 xs then Inr (Arr1 xs) else Inl OverflowError)
        | Single x \<Rightarrow> (if int64 x then Inr (Arr0 x) else Inl OverflowError))
       (\<lambda>ret. if ndim ret < ndmin then Inl AttributeError else Inr ret)"

text \<open>
  The setter of the property \<open>core_idx\<close>: \<open>as_array(value, dtype=int, ndmin=1)\<close>, then
  \<open>core_idx -= 1\<close> and \<open>core_idx.sort()\<close> in place. Sorting an array of dimension 0 is
  an axis error (a \<open>ValueError\<close>).
\<close>

definition set_core_idx :: "MolDissociater \<Rightarrow> index_input \<Rightarrow> error + MolDissociater" where
  "set_core_idx self val =
     bind_err (as_array val 1)
       (\<lambda>arr. case arr of
          Arr1 xs \<Rightarrow> Inr (self\<lparr>core_idx := sort (map (\<lambda>x. wrap64 (x - 1)) xs)\<rparr>)
        | Arr0 x \<Rightarrow> Inl ValueError)"

subsection \<open>Array helpers of NumPy, SciPy and itertools\<close>

text \<open>
  \<open>a[idx]\<close> for a one-dimensional integer array \<open>idx\<close>: one row per index, a negative
  index counting from the end, \<open>IndexError\<close> outside \<open>[-len(a), len(a))\<close>.
\<close>

definition np_take :: "'a list \<Rightarrow> int list \<Rightarrow> error + 'a list" where
  "np_take a idx =
     (if list_all (\<lambda>k. - int (length a) \<le> k \<and> k < int (length a)) idx
      then Inr (map (\<lambda>k. a ! nat (if k < 0 then k + int (length a) else k)) idx)
      else Inl IndexError)"

fun euclidean :: "real \<times> real \<times> real \<Rightarrow> real \<times> real \<times> real \<Rightarrow> real" where
  "euclidean (x1, y1, z1) (x2, y2, z2) = sqrt ((x1 - x2)\<^sup>2 + (y1 - y2)\<^sup>2 + (z1 - z2)\<^sup>2)"

text \<open>\<open>scipy.spatial.distance.cdist(XA, XB)\<close>: one row per row of \<open>XA\<close>.\<close>

definition cdist ::
  "(real \<times> real \<times> real) list \<Rightarrow> (real \<times> real \<times> real) list \<Rightarrow> real list list" where
  "cdist XA XB = map (\<lambda>a. map (euclidean a) XB) XA"

text \<open>\<open>np.fill_diagonal(a, val)\<close> on a matrix: the entries \<open>a[r, r]\<close> that exist.\<close>

definition fill_diagonal :: "'a list list \<Rightarrow> 'a \<Rightarrow> 'a list list" where
  "fill_diagonal a val =
     map (\<lambda>(r, row). if r < length row then row[r := val] else row) (enumerate 0 a)"

text \<open>
  \<open>zip(*np.where(cond))\<close> on a matrix of truth values, given here as the matrix and the
  test: the pairs (row, column) of the entries that pass, in row-major order.
\<close>

definition np_where :: "('a \<Rightarrow> bool) \<Rightarrow> 'a list list \<Rightarrow> (nat \<times> nat) list" where
  "np_where cond a =
     concat (map (\<lambda>(r, row). map (Pair r) (filter (\<lambda>c. cond (row ! c)) [0..<length row]))
                 (enumerate 0 a))"

text \<open>
  \<open>np.bincount(x, minlength=m)\<close>: the number of occurrences of each value from 0 to
  \<open>max(m, max(x) + 1) - 1\<close>.
\<close>

definition bincount :: "nat list \<Rightarrow> nat \<Rightarrow> nat list" where
  "bincount x minlength =
     map (\<lambda>v. length (filter (\<lambda>y. y = v) x)) [0..<max minlength (fold (\<lambda>y m. max (Suc y) m) x 0)]"

text \<open>
  \<open>np.argsort(x)\<close>: the positions of \<open>x\<close> in ascending order of their entries. NumPy's
  default sort leaves the order of equal entries open, and the model fixes one such
  order (equal entries keep the order of their positions). The property proved below
  for one pair per core atom holds for every order of equal entries, and the run with
  several pairs per core atom has no equal entries.
\<close>

definition argsort :: "'a::linorder list \<Rightarrow> nat list" where
  "argsort x = sort_key (\<lambda>i. x ! i) [0..<length x]"

text \<open>
  \<open>itertools.combinations(xs, r)\<close> for \<open>r \<ge> 0\<close>: the subsequences of length \<open>r\<close>, in
  lexicographic order of the positions.
\<close>

fun combinations :: "'a list \<Rightarrow> nat \<Rightarrow> 'a list list" where
  "combinations xs 0 = [[]]"
| "combinations [] (Suc r) = []"
| "combinations (x # xs) (Suc r) = map ((#) x) (combinations xs r) @ combinations xs (Suc r)"

text \<open>\<open>itertools.groupby(xs, key)\<close>: the maximal runs of equal keys, each with its key.\<close>

function groupby :: "('a \<Rightarrow> 'k) \<Rightarrow> 'a list \<Rightarrow> ('k \<times> 'a list) list" where
  "groupby key [] = []"
| "groupby key (x # xs) =
     (key x, x # takeWhile (\<lambda>y. key y = key x) xs)
       # groupby key (dropWhile (\<lambda>y. key y = key x) xs)"
  by pat_completeness auto
termination
  by (relation "measure (\<lambda>(key, xs). length xs)")
     (auto simp: length_dropWhile_le le_imp_less_Suc)

text \<open>
  A dictionary that keeps the order of insertion, built from its items: a key met again
  keeps its place and takes the new value.
\<close>

fun dict_update :: "'k \<Rightarrow> 'v \<Rightarrow> ('k \<times> 'v) list \<Rightarrow> ('k \<times> 'v) list" where
  "dict_update k v [] = [(k, v)]"
| "dict_update k v (p # ps) = (if fst p = k then (k, v) # ps else p # dict_update k v ps)"

definition dict_of :: "('k \<times> 'v) list \<Rightarrow> ('k \<times> 'v) list" where
  "dict_of items = foldl (\<lambda>d (k, v). dict_update k v d) [] items"

subsection \<open>The pairing strategies\<close>

text \<open>
  The rows \<open>xyz[i]\<close> and \<open>xyz[j]\<close> of the two index arguments of \<open>cdist\<close>, with
  \<open>j = as_array(lig_idx, dtype=int) - 1\<close>. A single integer gives an array \<open>j\<close> of
  dimension 0 and one coordinate triple for \<open>xyz[j]\<close>, which \<open>cdist\<close> refuses with a
  \<open>ValueError\<close>.
\<close>

definition core_lig_rows ::
  "MolDissociater \<Rightarrow> index_input
     \<Rightarrow> error + (real \<times> real \<times> real) list \<times> (real \<times> real \<times> real) list" where
  "core_lig_rows self lig_idx =
     bind_err (as_array lig_idx 0) (\<lambda>arr.
     bind_err (np_take (xyz_coords self) (core_idx self)) (\<lambda>xa.
       case arr of
         Arr0 x \<Rightarrow>
           bind_err (np_take (xyz_coords self) [wrap64 (x - 1)]) (\<lambda>_. Inl ValueError)
       | Arr1 js \<Rightarrow>
           bind_err (np_take (xyz_coords self) (map (\<lambda>x. wrap64 (x - 1)) js)) (\<lambda>xb.
             Inr (xa, xb))))"

text \<open>\<open>np.linalg.norm\<close> of a row.\<close>

definition linalg_norm :: "real list \<Rightarrow> real" where
  "linalg_norm v = sqrt (sum_list (map (\<lambda>d. d\<^sup>2) v))"

text \<open>\<open>iter_repeat(iterable, times)\<close>.\<close>

definition iter_repeat :: "'a list \<Rightarrow> nat \<Rightarrow> 'a list" where
  "iter_repeat iterable n_times = concat (map (replicate n_times) iterable)"

text \<open>
  \<open>get_pairs_closest\<close>. The rows of the returned array are lists of integers. In the
  branch for \<open>n_pairs > 1\<close>:
  \<^item> \<open>combinations(range(1+n_pairs), n)\<close> raises \<open>ValueError\<close> for a negative \<open>n\<close>, and
    \<open>combine.shape = -1, n\<close> raises it for \<open>n = 0\<close> (an empty array has no shape
    \<open>(-1, 0)\<close>);
  \<^item> \<open>dist_smallest[:, combine]\<close> raises \<open>IndexError\<close> when \<open>combine\<close> holds a column that
    \<open>dist_smallest\<close> does not have;
  \<^item> without core atoms \<open>lig_idx\<close> is the empty one-dimensional array and
    \<open>lig_idx.shape = -1, lig_idx.shape[-1]\<close> raises \<open>ValueError\<close>;
  \<^item> \<open>np.hstack\<close> raises \<open>ValueError\<close> when \<open>core_idx\<close> and \<open>lig_idx\<close> differ in their
    numbers of rows.
\<close>

definition get_pairs_closest ::
  "MolDissociater \<Rightarrow> index_input \<Rightarrow> int \<Rightarrow> error + int list list" where
  "get_pairs_closest self lig_idx n_pairs =
     (if n_pairs \<le> 0 then Inl ValueError
      else
        bind_err (core_lig_rows self lig_idx) (\<lambda>(xa, xb).
          let i = core_idx self;
              n = ligand_count self;
              dist = cdist xa xb
          in
          if n_pairs = 1 then
            Inr (map2 (\<lambda>c row. c # map int (take 2 (argsort row))) i dist)
          else
            let pool = nat (1 + n_pairs);
                idx_small = map (\<lambda>row. take pool (argsort row)) dist;
                dist_smallest = map2 (\<lambda>row idx. map (\<lambda>k. row ! k) idx) dist idx_small
            in
            if n \<le> 0 then Inl ValueError
            else
              let combine = combinations [0..<pool] (nat n) in
              if \<not> list_all (list_all (\<lambda>k. k < min (length xb) pool)) combine
              then Inl IndexError
              else
                let norm = map (\<lambda>row. map (\<lambda>c. linalg_norm (map (\<lambda>k. row ! k) c)) combine)
                               dist_smallest;
                    idx_accept = map (\<lambda>row. map (\<lambda>q. combine ! q)
                                                  (take (nat n_pairs) (argsort row))) norm;
                    lig = concat (map2 (\<lambda>k l. map (map (\<lambda>c. int (k ! c))) l)
                                       idx_small idx_accept);
                    core = iter_repeat i (nat n_pairs)
                in
                if i = [] then Inl ValueError
                else if length core \<noteq> length lig then Inl ValueError
                else Inr (map2 (#) core lig)))"

text \<open>
  \<open>np.array(cor_lig_pairs)\<close>, the last step of \<open>get_pairs_distance\<close>. A record is the
  tuple of the row \<open>k\<close> and of the \<open>n\<close> entries of a combination, which are pairs. For
  \<open>n = 0\<close> every record is \<open>(k,)\<close> and the array is an integer matrix of one column; the
  empty list gives the empty array. A record with an integer and pairs has no common
  shape, and NumPy (from 1.24; earlier versions built an array of objects) raises
  \<open>ValueError\<close>.
\<close>

definition np_array_records :: "(nat \<times> (nat \<times> nat) list) list \<Rightarrow> error + int list list" where
  "np_array_records recs =
     (if list_all (\<lambda>rec. snd rec = []) recs
      then Inr (map (\<lambda>rec. [int (fst rec)]) recs)
      else Inl ValueError)"

text \<open>
  \<open>get_pairs_distance\<close>. The value \<open>v\<close> of a group of \<open>groupby\<close> lists the pairs
  (row, column) of \<open>zip(*idx)\<close> themselves, so a record is the row \<open>k\<close> followed by \<open>n\<close>
  such pairs. \<open>combinations(v, n)\<close> raises \<open>ValueError\<close> for a negative \<open>n\<close>.
\<close>

definition get_pairs_distance ::
  "MolDissociater \<Rightarrow> index_input \<Rightarrow> real \<Rightarrow> error + int list list" where
  "get_pairs_distance self lig_idx max_dist' =
     bind_err (core_lig_rows self lig_idx) (\<lambda>(xa, xb).
       let n = ligand_count self;
           dist = fill_diagonal (cdist xa xb) max_dist';
           idx = np_where (\<lambda>d. d < max_dist') dist;
           pair_mapping = dict_of (groupby fst idx)
       in
       if n < 0 then (if pair_mapping = [] then np_array_records [] else Inl ValueError)
       else
         np_array_records
           (concat (map (\<lambda>(k, v). if n \<le> int (length v)
                                    then map (Pair k) (combinations v (nat n))
                                    else [])
                        pair_mapping)))"

text \<open>
  For the statement of the properties: the distance from the atom of entry \<open>r\<close> of
  \<open>core_idx\<close> to the atom of the anchor at position \<open>q\<close> of the anchor list \<open>js\<close>
  (1-based atom indices).
\<close>

definition pair_dist :: "MolDissociater \<Rightarrow> int list \<Rightarrow> nat \<Rightarrow> nat \<Rightarrow> real" where
  "pair_dist self js r q =
     euclidean (xyz_coords self ! nat (core_idx self ! r)) (xyz_coords self ! nat (js ! q - 1))"

subsection \<open>Bulk filter and topology assignment\<close>

text \<open>
  \<open>Molecule.__getitem__\<close> of PLAMS for an integer key, as the position of the atom in
  the list of atoms: atoms are numbered from 1, the key 0 is a \<open>MoleculeError\<close>, and a
  negative key counts from the end. A key that is not an integer or a pair is a
  \<open>MoleculeError\<close> as well.
\<close>

definition mol_getitem :: "atom list \<Rightarrow> int \<Rightarrow> error + nat" where
  "mol_getitem ats key =
     (if key = 0 then Inl MoleculeError
      else if key < 0 then
        (if - int (length ats) \<le> key then Inr (nat (key + int (length ats))) else Inl IndexError)
      else
        (if key \<le> int (length ats) then Inr (nat (key - 1)) else Inl IndexError))"

text \<open>
  \<open>remove_bulk\<close>. After \<open>dist = cdist(xyz[i], xyz[i])\<close> the source calls
  \<open>np.filldiagonal\<close>, a name that the module \<open>numpy\<close> does not define (its function is
  \<open>fill_diagonal\<close>): the attribute lookup raises \<open>AttributeError\<close> and no later line of
  the method runs.
\<close>

definition remove_bulk :: "MolDissociater \<Rightarrow> real \<Rightarrow> error + MolDissociater" where
  "remove_bulk self max_vec_len =
     bind_err (np_take (xyz_coords self) (core_idx self)) (\<lambda>xa.
     bind_err (np_take (xyz_coords self) (core_idx self)) (\<lambda>xb.
       let dist = cdist xa xb in Inl AttributeError))"

text \<open>The decimal numeral of an integer, as \<open>str\<close> and an f-string print it.\<close>

definition digit_char :: "nat \<Rightarrow> char" where
  "digit_char d = ''0123456789'' ! d"

function str_nat :: "nat \<Rightarrow> string" where
  "str_nat n = (if n < 10 then [digit_char n] else str_nat (n div 10) @ [digit_char (n mod 10)])"
  by pat_completeness auto
termination
  by (relation "measure id") auto

definition str_int :: "int \<Rightarrow> string" where
  "str_int i = (if i < 0 then CHR ''-'' # str_nat (nat (- i)) else str_nat (nat i))"

definition get_topology :: "MolDissociater \<Rightarrow> int list \<Rightarrow> string list" where
  "get_topology self neighbour_count =
     map (\<lambda>i. case topology self i of Some label \<Rightarrow> label | None \<Rightarrow> str_int i @ ''_neighbours'')
         neighbour_count"

text \<open>
  The loop of \<open>assign_topology\<close> over \<open>zip(self.core_idx, topology)\<close>, and the method. A
  count of \<open>np.bincount\<close> is at most the size of an array, so that \<open>neighbour_count -= 1\<close>
  does not leave the 64-bit range.
\<close>

fun assign_loop :: "atom list \<Rightarrow> (int \<times> string) list \<Rightarrow> error + atom list" where
  "assign_loop ats [] = Inr ats"
| "assign_loop ats ((j, top') # rest) =
     bind_err (mol_getitem ats (1 + j)) (\<lambda>k.
       assign_loop (ats[k := (ats ! k)\<lparr>topology_prop := Some top'\<rparr>]) rest)"

definition assign_topology :: "MolDissociater \<Rightarrow> error + MolDissociater" where
  "assign_topology self =
     bind_err (np_take (xyz_coords self) (core_idx self)) (\<lambda>xa.
     bind_err (np_take (xyz_coords self) (core_idx self)) (\<lambda>xb.
       let i = core_idx self;
           dist = fill_diagonal (cdist xa xb) (max_dist self);
           valid_core = map fst (np_where (\<lambda>d. d \<le> max_dist self) dist);
           neighbour_count = map (\<lambda>c. int c - 1) (bincount valid_core (length i));
           topology = get_topology self neighbour_count
       in
       bind_err (assign_loop (atoms (mol self)) (zip i topology)) (\<lambda>ats.
         Inr (self\<lparr>mol := (mol self)\<lparr>atoms := ats\<rparr>\<rparr>))))"

text \<open>
  For the statement of the property: the number of the other entries of \<open>core_idx\<close>
  whose atom lies at a distance of at most \<open>max_dist\<close> from the atom of entry \<open>r\<close>.
\<close>

definition neighbours_within :: "MolDissociater \<Rightarrow> nat \<Rightarrow> nat" where
  "neighbours_within self r =
     length (filter
       (\<lambda>c. c \<noteq> r \<and>
            euclidean (xyz_coords self ! nat (core_idx self ! r))
                      (xyz_coords self ! nat (core_idx self ! c)) \<le> max_dist self)
       [0..<length (core_idx self)])"

subsection \<open>Combinations\<close>

text \<open>
  A value that is an integer in one place of the source and a tuple of integers in
  another.
\<close>

datatype py_core = PyInt int | PyTuple "int list"

text \<open>\<open>np.intersect1d\<close> and \<open>np.setdiff1d\<close>: sorted, without duplicates.\<close>

definition intersect1d :: "int list \<Rightarrow> int list \<Rightarrow> int list" where
  "intersect1d a b = filter (\<lambda>x. x \<in> set b) (sort (remdups a))"

definition setdiff1d :: "int list \<Rightarrow> int list \<Rightarrow> int list" where
  "setdiff1d a b = filter (\<lambda>x. x \<notin> set b) (sort (remdups a))"

text \<open>
  \<open>_core_neighbours\<close>. The substructure matcher is outside the repository: it is the
  parameter \<open>substruct_matches\<close>, which gives for a SMILES string the matches of the
  molecule, tuples of 0-based atom indices of one common length.

  Without a query the iterator runs over the integers \<open>1 + core\<close>. With a query,
  \<open>np.intersect1d(core, matches)\<close> is called without \<open>return_indices\<close> and returns one
  array; the assignment to the three names \<open>intersect, _, _idx\<close> unpacks that array and
  raises \<open>ValueError\<close> unless it has exactly three entries, which then are three integers:
  \<open>(intersect != core).all()\<close> compares the first with every entry of \<open>core\<close>, and
  \<open>matches[_idx // matches.shape[1]]\<close> is one row of \<open>matches\<close>.
\<close>

definition core_neighbours ::
  "MolDissociater \<Rightarrow> (string \<Rightarrow> int list list) \<Rightarrow> string option \<Rightarrow> error + py_core list" where
  "core_neighbours self substruct_matches smiles =
     (let core = core_idx self in
      case smiles of
        None \<Rightarrow> Inr (map (\<lambda>c. PyInt (wrap64 (1 + c))) core)
      | Some smi \<Rightarrow>
          (let matches = substruct_matches smi in
           case intersect1d core (concat matches) of
             [intersect, _, idx] \<Rightarrow>
               if list_all (\<lambda>c. intersect \<noteq> c) core
               then Inl (AbsentAtoms (setdiff1d core [intersect]))
               else
                 (case matches of
                    [] \<Rightarrow> Inl IndexError
                  | m # _ \<Rightarrow>
                      bind_err (np_take matches [idx div int (length m)]) (\<lambda>rows.
                        Inr (map (\<lambda>v. PyInt (wrap64 (v + 1))) (concat rows))))
           | _ \<Rightarrow> Inl ValueError))"

text \<open>
  \<open>_get_value\<close>: the core entry as it comes, and for every ligand entry the group
  \<open>partition_dict[lig]\<close> (wrapped by the source in a \<open>chain\<close> object that nothing has
  iterated yet); \<open>KeyError\<close> for an entry that is not a key.
\<close>

fun lookup_groups :: "(int \<rightharpoonup> int list) \<Rightarrow> int list \<Rightarrow> error + int list list" where
  "lookup_groups pd [] = Inr []"
| "lookup_groups pd (lig # ligands) =
     (case pd lig of
        None \<Rightarrow> Inl KeyError
      | Some g \<Rightarrow> bind_err (lookup_groups pd ligands) (\<lambda>gs. Inr (g # gs)))"

text \<open>The generator expression returned by \<open>get_combinations\<close>.\<close>

fun combinations_gen ::
  "(int \<rightharpoonup> int list) \<Rightarrow> (py_core \<times> int list) list
     \<Rightarrow> (py_core \<times> int list list) list \<times> error option" where
  "combinations_gen pd [] = ([], None)"
| "combinations_gen pd ((core, ligands) # rest) =
     (case lookup_groups pd ligands of
        Inl e \<Rightarrow> ([], Some e)
      | Inr gs \<Rightarrow> (case combinations_gen pd rest of (ys, e) \<Rightarrow> ((core, gs) # ys, e)))"

text \<open>
  \<open>get_combinations\<close>: an exception of \<open>_core_neighbours\<close> is raised by the call itself,
  one of \<open>_get_value\<close> when the generator reaches the record.
\<close>

definition get_combinations ::
  "MolDissociater \<Rightarrow> (string \<Rightarrow> int list list) \<Rightarrow> int list list \<Rightarrow> string option
     \<Rightarrow> error + (py_core \<times> int list list) list \<times> error option" where
  "get_combinations self substruct_matches cor_lig_pairs core_smiles =
     (let cor_lig_pairs1 = map (map (\<lambda>x. wrap64 (x + 1))) cor_lig_pairs;
          ligand_list = map tl cor_lig_pairs1
      in
      bind_err (core_neighbours self substruct_matches core_smiles) (\<lambda>core_iterator.
        Inr (combinations_gen (partition_dict self) (zip core_iterator ligand_list))))"

subsection \<open>The dissociation generator\<close>

text \<open>
  \<open>_get_new_indices\<close>. With no indices on the molecule the method stores and returns an
  empty list. Otherwise it deletes the last \<open>n\<close> entries of a copy (\<open>IndexError\<close> when
  the copy runs empty) and then calls \<open>next\<close> on \<open>partition_dict.values()\<close>, which is
  not an iterator: \<open>TypeError\<close>.
\<close>

definition get_new_indices :: "MolDissociater \<Rightarrow> error + int list" where
  "get_new_indices self =
     (let n = ligand_count self;
          ret = indices (mol self)
      in if ret = [] then Inr []
         else if int (length ret) < n then Inl IndexError
         else Inl TypeError)"

fun map_err :: "('a \<Rightarrow> error + 'b) \<Rightarrow> 'a list \<Rightarrow> error + 'b list" where
  "map_err f [] = Inr []"
| "map_err f (x # xs) = bind_err (f x) (\<lambda>y. bind_err (map_err f xs) (\<lambda>ys. Inr (y # ys)))"

text \<open>\<open>' '.join(strs)\<close>.\<close>

fun join_space :: "string list \<Rightarrow> string" where
  "join_space [] = []"
| "join_space [x] = x"
| "join_space (x # y # ys) = x @ '' '' @ join_space (y # ys)"

text \<open>
  The body of the loop of \<open>__call__\<close> for one combination \<open>(core_idx, lig_idx)\<close>, on a
  copy of the molecule. The atoms to delete are found first, as positions in the copy.
  \<^item> \<open>core_idx[0]\<close> is a \<open>TypeError\<close> for an integer and an \<open>IndexError\<close> for an empty
    tuple.
  \<^item> An entry \<open>i\<close> of \<open>lig_idx\<close> is a group of indices: the source evaluates \<open>mol_new[i]\<close>
    for it, and a molecule indexed by a list raises \<open>MoleculeError\<close>.
  \<^item> \<open>delete_atom\<close> raises \<open>MoleculeError\<close> for an atom that is no longer in the
    molecule, which is the case when an atom is listed twice.
  The topology of an atom that has none prints as the empty string.
\<close>

definition dissociate_one ::
  "molecule \<Rightarrow> int list \<Rightarrow> py_core \<times> int list list \<Rightarrow> error + molecule" where
  "dissociate_one mol_new indices' comb =
     (let ats = atoms mol_new;
          lig_idx = snd comb
      in
      case fst comb of
        PyInt c \<Rightarrow> Inl TypeError
      | PyTuple [] \<Rightarrow> Inl IndexError
      | PyTuple (c0 # cs) \<Rightarrow>
          bind_err (mol_getitem ats c0) (\<lambda>core.
          bind_err (map_err (mol_getitem ats) (c0 # cs)) (\<lambda>delete_core.
          bind_err (map_err (\<lambda>i. Inl MoleculeError) lig_idx) (\<lambda>delete_lig.
            let delete_at = delete_core @ delete_lig;
                core_topology' =
                  (case topology_prop (ats ! core) of None \<Rightarrow> [] | Some t \<Rightarrow> t)
                    @ ''_'' @ str_int c0
            in
            bind_err (map_err (\<lambda>i. case i of
                                     [] \<Rightarrow> Inl IndexError
                                   | i0 # _ \<Rightarrow> bind_err (mol_getitem ats i0) (\<lambda>k.
                                                Inr (ResidueNumber (ats ! k))))
                              lig_idx) (\<lambda>res.
              let lig_residue' = sort res;
                  df_index' = core_topology' @ join_space (map str_int lig_residue')
              in
              if distinct delete_at
              then Inr (mol_new\<lparr>atoms := map snd (filter (\<lambda>p. fst p \<notin> set delete_at)
                                                           (enumerate 0 ats)),
                                 indices := indices', job_path := [],
                                 core_topology := core_topology',
                                 lig_residue := lig_residue', df_index := df_index'\<rparr>)
              else Inl MoleculeError)))))"

fun call_loop ::
  "molecule \<Rightarrow> int list \<Rightarrow> (py_core \<times> int list list) list \<Rightarrow> molecule list \<times> error option" where
  "call_loop m indices' [] = ([], None)"
| "call_loop m indices' (comb # rest) =
     (case dissociate_one m indices' comb of
        Inl e \<Rightarrow> ([], Some e)
      | Inr mol_new \<Rightarrow> (case call_loop m indices' rest of (ys, e) \<Rightarrow> (mol_new # ys, e)))"

text \<open>\<open>MolDissociater.__call__\<close>: the molecules it yields and the exception that ends it.\<close>

definition call ::
  "MolDissociater \<Rightarrow> (py_core \<times> int list list) list \<Rightarrow> molecule list \<times> error option" where
  "call self combs =
     (case get_new_indices self of
        Inl e \<Rightarrow> ([], Some e)
      | Inr indices' \<Rightarrow> call_loop (mol self) indices' combs)"

subsection \<open>A small structure for concrete runs\<close>

text \<open>
  Seven atoms on the x axis. Atoms 1 and 2 form residue 1, the core; atoms 3 to 7 are
  the anchors of five ligands, one residue each.
\<close>

definition ex_atom :: "real \<Rightarrow> int \<Rightarrow> atom" where
  "ex_atom x r = \<lparr>coords = (x, 0, 0), ResidueNumber = r, topology_prop = None\<rparr>"

definition ex_atoms :: "atom list" where
  "ex_atoms = [ex_atom 0 1, ex_atom 3 1, ex_atom 1 2, ex_atom (- 1) 3,
               ex_atom 10 4, ex_atom (- 10) 5, ex_atom 11 6]"

definition ex_mol :: molecule where
  "ex_mol = \<lparr>atoms = ex_atoms, indices = [], job_path = [], core_topology = [],
             lig_residue = [], df_index = []\<rparr>"

definition ex_engine :: MolDissociater where
  "ex_engine =
     \<lparr>mol = ex_mol, core_idx = [0, 1], ligand_count = 2, max_dist = 3,
      topology = Map.empty, xyz_coords = map coords ex_atoms,
      partition_dict = [1 \<mapsto> [1, 2], 2 \<mapsto> [3], 3 \<mapsto> [4], 4 \<mapsto> [5], 5 \<mapsto> [6], 6 \<mapsto> [7]]\<rparr>"

text \<open>
  Six atoms on the x axis: atom 1 is the core, atoms 2 to 6 are anchors at the distances
  1, 3, 10, 11 and 12 from it.
\<close>

definition ex_line_atoms :: "atom list" where
  "ex_line_atoms = [ex_atom 0 1, ex_atom 1 2, ex_atom 3 3, ex_atom 10 4, ex_atom 11 5,
                    ex_atom 12 6]"

definition ex_line_engine :: MolDissociater where
  "ex_line_engine =
     \<lparr>mol = \<lparr>atoms = ex_line_atoms, indices = [], job_path = [], core_topology = [],
              lig_residue = [], df_index = []\<rparr>,
      core_idx = [0], ligand_count = 3, max_dist = 3,
      topology = Map.empty, xyz_coords = map coords ex_line_atoms,
      partition_dict = [1 \<mapsto> [1], 2 \<mapsto> [2], 3 \<mapsto> [3], 4 \<mapsto> [4], 5 \<mapsto> [5], 6 \<mapsto> [6]]\<rparr>"

section \<open>Properties\<close>

subsection \<open>Facts for concrete runs\<close>

lemma int64_small: "- 1000 \<le> x \<Longrightarrow> x \<le> 1000 \<Longrightarrow> int64 x"
  by (simp add: int64_def)

lemma wrap64_id: "int64 x \<Longrightarrow> wrap64 x = x"
  by (simp add: int64_def wrap64_def)

lemma wrap64_pred: "int64 x \<Longrightarrow> 1 \<le> x \<Longrightarrow> wrap64 (x - 1) = x - 1"
  by (rule wrap64_id) (simp add: int64_def)

lemma ex_fields:
  "core_idx ex_engine = [0, 1]" "ligand_count ex_engine = 2" "max_dist ex_engine = 3"
  "xyz_coords ex_engine =
     [(0, 0, 0), (3, 0, 0), (1, 0, 0), (- 1, 0, 0), (10, 0, 0), (- 10, 0, 0), (11, 0, 0)]"
  "mol ex_engine = ex_mol"
  by (simp_all add: ex_engine_def ex_atoms_def ex_atom_def)

subsection \<open>\<open>partition_mol\<close> partitions the index range\<close>

lemma partition_loop_lookup:
  "partition_loop func ps ret k =
     (let l = map fst (filter (\<lambda>p. func (snd p) = k) ps) in
      case ret k of
        None \<Rightarrow> (if l = [] then None else Some l)
      | Some l0 \<Rightarrow> Some (l0 @ l))"
proof (induction ps arbitrary: ret)
  case Nil
  then show ?case by (simp split: option.splits)
next
  case (Cons p ps)
  obtain i a where p: "p = (i, a)" by (cases p)
  show ?case
    unfolding p
    by (cases "ret (func a)") (auto simp: Cons.IH Let_def split: option.splits)
qed

lemma partition_mol_lookup:
  "partition_mol self key k =
     (let func = (case key of Some f \<Rightarrow> f | None \<Rightarrow> ResidueNumber);
          l = map fst (filter (\<lambda>p. func (snd p) = k) (enumerate1 (atoms (mol self))))
      in if l = [] then None else Some l)"
  by (simp add: partition_mol_def partition_loop_lookup Let_def)

lemma enumerate1_fst: "map fst (enumerate1 xs) = map int [1..<Suc (length xs)]"
  by (simp add: enumerate1_def)

lemma enumerate1_mem:
  "(i, a) \<in> set (enumerate1 xs) \<longleftrightarrow> 1 \<le> i \<and> i \<le> int (length xs) \<and> a = xs ! nat (i - 1)"
proof
  assume "(i, a) \<in> set (enumerate1 xs)"
  then obtain n where n: "n < length xs" "i = int (Suc n)" "a = xs ! n"
    by (auto simp: enumerate1_def in_set_zip nth_append simp del: upt_Suc)
  then show "1 \<le> i \<and> i \<le> int (length xs) \<and> a = xs ! nat (i - 1)" by simp
next
  assume h: "1 \<le> i \<and> i \<le> int (length xs) \<and> a = xs ! nat (i - 1)"
  define n where "n = nat (i - 1)"
  have n: "n < length xs" "i = int (Suc n)" "a = xs ! n"
    using h by (auto simp: n_def)
  have "(map int [1..<Suc (length xs)]) ! n = i" "xs ! n = a"
    using n by (simp_all add: nth_append del: upt_Suc)
  then show "(i, a) \<in> set (enumerate1 xs)"
    unfolding enumerate1_def in_set_zip using n(1) by (intro exI [of _ n]) (simp del: upt_Suc)
qed

lemma sorted_wrt_filter_fst:
  "sorted_wrt (<) (map fst ps) \<Longrightarrow> sorted_wrt (<) (map fst (filter P ps))"
  by (induction ps) auto

lemma enumerate1_sorted: "sorted_wrt (<) (map fst (enumerate1 xs))"
proof -
  have "sorted_wrt (<) [1..<Suc (length xs)]" by (simp del: upt_Suc)
  then show ?thesis
    unfolding enumerate1_fst by (simp add: sorted_wrt_map del: upt_Suc)
qed

text \<open>
  Claim C10. For every molecule and every key function, every 1-based atom index from 1
  to the number of atoms lies in the list of exactly one group, namely the group of the
  key computed from its atom, and the list of every group is strictly increasing and
  holds indices of that range only: the lists partition the index range.
\<close>

theorem partition_mol_partitions:
  fixes self :: MolDissociater and key :: "(atom \<Rightarrow> int) option"
  defines "func \<equiv> (case key of Some f \<Rightarrow> f | None \<Rightarrow> ResidueNumber)"
  shows "(\<forall>i \<in> {1 .. int (length (atoms (mol self)))}.
            (\<exists>l. partition_mol self key (func (atoms (mol self) ! nat (i - 1))) = Some l \<and> i \<in> set l) \<and>
            (\<forall>k l. partition_mol self key k = Some l \<and> i \<in> set l
                 \<longrightarrow> k = func (atoms (mol self) ! nat (i - 1)))) \<and>
         (\<forall>k l. partition_mol self key k = Some l \<longrightarrow>
            sorted_wrt (<) l \<and> set l \<subseteq> {1 .. int (length (atoms (mol self)))})"
proof (intro conjI ballI allI impI)
  fix i assume i: "i \<in> {1 .. int (length (atoms (mol self)))}"
  let ?a = "atoms (mol self) ! nat (i - 1)"
  have mem: "(i, ?a) \<in> set (enumerate1 (atoms (mol self)))"
    using i by (simp add: enumerate1_mem)
  let ?l = "map fst (filter (\<lambda>p. func (snd p) = func ?a) (enumerate1 (atoms (mol self))))"
  have "i \<in> set ?l" using mem by force
  moreover from this have "?l \<noteq> []" by (metis empty_iff list.set(1))
  ultimately show "\<exists>l. partition_mol self key (func ?a) = Some l \<and> i \<in> set l"
    unfolding partition_mol_lookup func_def Let_def by (intro exI [of _ ?l]) (simp add: func_def)
next
  fix i k l
  assume i: "i \<in> {1 .. int (length (atoms (mol self)))}"
    and kl: "partition_mol self key k = Some l \<and> i \<in> set l"
  then have "i \<in> set (map fst (filter (\<lambda>p. func (snd p) = k) (enumerate1 (atoms (mol self)))))"
    by (auto simp: partition_mol_lookup func_def Let_def split: if_splits)
  then obtain a where "(i, a) \<in> set (enumerate1 (atoms (mol self)))" "func a = k" by auto
  then show "k = func (atoms (mol self) ! nat (i - 1))" by (simp add: enumerate1_mem)
next
  fix k l assume kl: "partition_mol self key k = Some l"
  then have l: "l = map fst (filter (\<lambda>p. func (snd p) = k) (enumerate1 (atoms (mol self))))"
    by (auto simp: partition_mol_lookup func_def Let_def split: if_splits)
  show "sorted_wrt (<) l"
    unfolding l by (rule sorted_wrt_filter_fst) (rule enumerate1_sorted)
  show "set l \<subseteq> {1 .. int (length (atoms (mol self)))}"
    unfolding l by (auto simp: enumerate1_mem)
qed

theorem partition_mol_partitions_witness:
  "(2::int) \<in> {1 .. int (length (atoms (mol ex_engine)))} \<and>
   partition_mol ex_engine None 1 = Some [1, 2] \<and>
   (\<exists>l. partition_mol ex_engine None 1 = Some l \<and> 2 \<in> set l \<and> sorted_wrt (<) l) \<and>
   \<not> (\<exists>k l. k \<noteq> 1 \<and> partition_mol ex_engine None k = Some l \<and> 2 \<in> set l)"
proof -
  have len: "(2::int) \<in> {1 .. int (length (atoms (mol ex_engine)))}"
    by (simp add: ex_engine_def ex_mol_def ex_atoms_def)
  have r: "ResidueNumber (atoms (mol ex_engine) ! nat (2 - 1)) = 1"
    by (simp add: ex_engine_def ex_mol_def ex_atoms_def ex_atom_def)
  have p: "partition_mol ex_engine None 1 = Some [1, 2]"
    by (simp add: partition_mol_def ex_engine_def ex_mol_def ex_atoms_def ex_atom_def enumerate1_def)
  note inst = partition_mol_partitions [of ex_engine None, simplified option.case]
  from inst len have
    "\<exists>l. partition_mol ex_engine None (ResidueNumber (atoms (mol ex_engine) ! nat (2 - 1))) = Some l
         \<and> 2 \<in> set l"
    by blast
  moreover from inst have srt: "\<forall>k l. partition_mol ex_engine None k = Some l \<longrightarrow> sorted_wrt (<) l"
    by blast
  ultimately have e: "\<exists>l. partition_mol ex_engine None 1 = Some l \<and> 2 \<in> set l \<and> sorted_wrt (<) l"
    unfolding r by blast
  from inst len have "\<forall>k l. partition_mol ex_engine None k = Some l \<and> 2 \<in> set l
                 \<longrightarrow> k = ResidueNumber (atoms (mol ex_engine) ! nat (2 - 1))"
    by blast
  then have u: "\<not> (\<exists>k l. k \<noteq> 1 \<and> partition_mol ex_engine None k = Some l \<and> 2 \<in> set l)"
    unfolding r by blast
  from len p e u show ?thesis by blast
qed

subsection \<open>The setter of \<open>core_idx\<close>\<close>

lemma as_array_iterable:
  "val = Sequence xs \<or> val = Iterator xs \<Longrightarrow>
   as_array val ndmin = (if list_all int64 xs then (if 1 < ndmin then Inl AttributeError else Inr (Arr1 xs)) else Inl OverflowError)"
  by (auto simp: as_array_def)

text \<open>
  Claim C6, as stated, fails: the setter neither removes duplicates nor checks the range.
  For the seven atoms of the example the indices 3, 3, 9 are accepted and give the
  array 2, 2, 8, which repeats 2 and holds 8, outside \<open>[0, 7)\<close>.
\<close>

theorem set_core_idx_counterexample:
  "map_sum id core_idx (set_core_idx ex_engine (Sequence [3, 3, 9])) = Inr [2, 2, 8] \<and>
   \<not> distinct [2, 2, 8 :: int] \<and>
   \<not> (8 < int (length (atoms (mol ex_engine))))"
  by (simp add: set_core_idx_def as_array_def wrap64_id int64_small ex_fields ex_mol_def
      ex_atoms_def)

text \<open>
  Claim C6, amended. For every list or one-shot iterator of integers that fit 64 bits the
  setter does not fail and stores the sorted array of the inputs, each decremented by
  one and duplicates kept; when every input lies in \<open>[1, atom_count]\<close> every entry lies
  in \<open>[0, atom_count)\<close>, and the array is free of duplicates when the inputs are. The
  only failure for such an argument is \<open>OverflowError\<close>, for an integer that does not
  fit 64 bits.
\<close>

theorem set_core_idx_iterable:
  assumes val: "val = Sequence xs \<or> val = Iterator xs"
  shows "(list_all int64 xs \<longrightarrow>
           (\<exists>cs. set_core_idx self val = Inr (self\<lparr>core_idx := cs\<rparr>) \<and>
                 sorted cs \<and> mset cs = mset (map (\<lambda>x. wrap64 (x - 1)) xs) \<and>
                 (list_all (\<lambda>x. 1 \<le> x \<and> x \<le> int (length (atoms (mol self)))) xs \<longrightarrow>
                    mset cs = mset (map (\<lambda>x. x - 1) xs) \<and>
                    list_all (\<lambda>c. 0 \<le> c \<and> c < int (length (atoms (mol self)))) cs \<and>
                    (distinct xs \<longrightarrow> distinct cs)))) \<and>
         (\<not> list_all int64 xs \<longrightarrow> set_core_idx self val = Inl OverflowError)"
proof (intro conjI impI)
  assume "\<not> list_all int64 xs"
  then show "set_core_idx self val = Inl OverflowError"
    by (simp add: set_core_idx_def as_array_iterable [OF val])
next
  assume ok: "list_all int64 xs"
  let ?cs = "sort (map (\<lambda>x. wrap64 (x - 1)) xs)"
  have run: "set_core_idx self val = Inr (self\<lparr>core_idx := ?cs\<rparr>)"
    using ok by (simp add: set_core_idx_def as_array_iterable [OF val])
  have rng: "mset ?cs = mset (map (\<lambda>x. x - 1) xs) \<and>
             list_all (\<lambda>c. 0 \<le> c \<and> c < int (length (atoms (mol self)))) ?cs \<and>
             (distinct xs \<longrightarrow> distinct ?cs)"
    if valid: "list_all (\<lambda>x. 1 \<le> x \<and> x \<le> int (length (atoms (mol self)))) xs"
  proof -
    have eq: "map (\<lambda>x. wrap64 (x - 1)) xs = map (\<lambda>x. x - 1) xs"
      using ok valid by (auto simp: list_all_iff wrap64_pred)
    have "inj_on (\<lambda>x::int. x - 1) (set xs)" by (simp add: inj_on_def)
    then have "distinct xs \<longrightarrow> distinct (map (\<lambda>x. x - 1) xs)"
      by (simp add: distinct_map)
    moreover have "list_all (\<lambda>c. 0 \<le> c \<and> c < int (length (atoms (mol self)))) (map (\<lambda>x. x - 1) xs)"
      using valid by (auto simp: list_all_iff)
    ultimately show ?thesis
      unfolding eq by (simp add: list_all_iff)
  qed
  show "\<exists>cs. set_core_idx self val = Inr (self\<lparr>core_idx := cs\<rparr>) \<and>
                 sorted cs \<and> mset cs = mset (map (\<lambda>x. wrap64 (x - 1)) xs) \<and>
                 (list_all (\<lambda>x. 1 \<le> x \<and> x \<le> int (length (atoms (mol self)))) xs \<longrightarrow>
                    mset cs = mset (map (\<lambda>x. x - 1) xs) \<and>
                    list_all (\<lambda>c. 0 \<le> c \<and> c < int (length (atoms (mol self)))) cs \<and>
                    (distinct xs \<longrightarrow> distinct cs))"
    using run rng by (intro exI [of _ ?cs]) simp
qed

theorem set_core_idx_iterable_witness:
  "list_all int64 [3, 1, 2] \<and>
   list_all (\<lambda>x. 1 \<le> x \<and> x \<le> int (length (atoms (mol ex_engine)))) [3, 1, 2] \<and>
   distinct [3, 1, 2 :: int] \<and>
   set_core_idx ex_engine (Iterator [3, 1, 2]) = Inr (ex_engine\<lparr>core_idx := [0, 1, 2]\<rparr>) \<and>
   (\<exists>cs. set_core_idx ex_engine (Iterator [3, 1, 2]) = Inr (ex_engine\<lparr>core_idx := cs\<rparr>) \<and>
         sorted cs \<and> distinct cs \<and>
         list_all (\<lambda>c. 0 \<le> c \<and> c < int (length (atoms (mol ex_engine)))) cs)"
proof -
  have a: "list_all int64 [3, 1, 2]" by (simp add: int64_def)
  have b: "list_all (\<lambda>x. 1 \<le> x \<and> x \<le> int (length (atoms (mol ex_engine)))) [3, 1, 2]"
    by (simp add: ex_engine_def ex_mol_def ex_atoms_def)
  have c: "distinct [3, 1, 2 :: int]" by simp
  have d: "set_core_idx ex_engine (Iterator [3, 1, 2]) = Inr (ex_engine\<lparr>core_idx := [0, 1, 2]\<rparr>)"
    by (simp add: set_core_idx_def as_array_def int64_def wrap64_def)
  from set_core_idx_iterable [of "Iterator [3, 1, 2]" "[3, 1, 2]" ex_engine] a b c
  have "\<exists>cs. set_core_idx ex_engine (Iterator [3, 1, 2]) = Inr (ex_engine\<lparr>core_idx := cs\<rparr>) \<and>
         sorted cs \<and> distinct cs \<and>
         list_all (\<lambda>c. 0 \<le> c \<and> c < int (length (atoms (mol ex_engine)))) cs"
    by blast
  with a b c d show ?thesis by blast
qed
subsection \<open>\<open>remove_bulk\<close>\<close>

text \<open>
  Claim C4. On the example (two core atoms at distance 3, the neighbour distance) the
  method raises \<open>AttributeError\<close> and updates nothing.
\<close>

theorem remove_bulk_raises: "remove_bulk ex_engine (1 / 2) = Inl AttributeError"
  by (simp add: remove_bulk_def np_take_def ex_fields)

subsection \<open>\<open>get_combinations\<close> and \<open>_core_neighbours\<close>\<close>

text \<open>
  Claim C7. Without a query the core entry of a combination is the bare integer
  \<open>1 + core_idx[k]\<close> of the \<open>k\<close>-th core atom, not a tuple holding it, and it is paired
  with the \<open>k\<close>-th record by position: for the single record of core atom 1 (0-based) the
  generator yields the core entry 1, the 1-based index of core atom 0.
\<close>

theorem get_combinations_bare_core:
  "get_combinations ex_engine (\<lambda>smi. []) [[0, 1, 2], [1, 1, 2]] None
     = Inr ([(PyInt 1, [[3], [4]]), (PyInt 2, [[3], [4]])], None) \<and>
   get_combinations ex_engine (\<lambda>smi. []) [[1, 1, 2]] None
     = Inr ([(PyInt 1, [[3], [4]])], None)"
  by (simp add: get_combinations_def core_neighbours_def ex_engine_def wrap64_id int64_small)

text \<open>
  Claim C8. With the core atoms 0 and 1 and the single match (0, 1), which holds both,
  the method raises the \<open>ValueError\<close> of the unpacking. With the core atoms 0, 1, 2, 3
  and the single match (0, 1, 2), which lacks 3, it raises nothing.
\<close>

theorem core_neighbours_unpack:
  "core_neighbours ex_engine (\<lambda>smi. [[0, 1]]) (Some ''[Cd][Cd]'') = Inl ValueError \<and>
   core_neighbours (ex_engine\<lparr>core_idx := [0, 1, 2, 3]\<rparr>) (\<lambda>smi. [[0, 1, 2]])
       (Some ''[Cd][Cd]O'')
     = Inr [PyInt 1, PyInt 2, PyInt 3]"
  by (simp add: core_neighbours_def ex_fields intersect1d_def np_take_def wrap64_id int64_small)

subsection \<open>\<open>__call__\<close>\<close>

text \<open>
  Claim C9. For the one combination of the core group (1) with the ligand group [3] the
  generator yields no molecule: it ends with \<open>MoleculeError\<close>.
\<close>

theorem call_ligand_group: "call ex_engine [(PyTuple [1], [[3]])] = ([], Some MoleculeError)"
  by (simp add: call_def get_new_indices_def dissociate_one_def mol_getitem_def ex_fields
      ex_mol_def ex_atoms_def)

subsection \<open>\<open>assign_topology\<close>\<close>

lemma np_take_valid:
  "list_all (\<lambda>k. 0 \<le> k \<and> k < int (length a)) idx \<Longrightarrow> np_take a idx = Inr (map (\<lambda>k. a ! nat k) idx)"
  by (auto simp: np_take_def list_all_iff)

lemma length_fill_diagonal [simp]: "length (fill_diagonal a v) = length a"
  by (simp add: fill_diagonal_def)

lemma fill_diagonal_nth:
  "r < length a \<Longrightarrow> fill_diagonal a v ! r = (if r < length (a ! r) then (a ! r)[r := v] else a ! r)"
  by (simp add: fill_diagonal_def nth_enumerate_eq)

lemma count_concat_enumerate:
  "length (filter (\<lambda>y. y = r) (concat (map (\<lambda>(q, row). map (\<lambda>c. q) (f row)) (enumerate n a))))
     = (if n \<le> r \<and> r < n + length a then length (f (a ! (r - n))) else 0)"
proof (induction a arbitrary: n)
  case Nil
  then show ?case by auto
next
  case (Cons row a)
  let ?g = "\<lambda>(q, row). map (\<lambda>c. q) (f row)"
  have step: "length (filter (\<lambda>y. y = r) (concat (map ?g (enumerate n (row # a)))))
      = length (filter (\<lambda>y. y = r) (map (\<lambda>c. n) (f row)))
        + length (filter (\<lambda>y. y = r) (concat (map ?g (enumerate (Suc n) a))))"
    by simp
  have here: "length (filter (\<lambda>y. y = r) (map (\<lambda>c. n) (f row))) = (if r = n then length (f row) else 0)"
    by (induction "f row") (auto simp: filter_empty_conv)
  show ?case
    unfolding step here Cons.IH by (auto simp: Suc_diff_le)
qed

lemma np_where_count:
  assumes "r < length a"
  shows "length (filter (\<lambda>y. y = r) (map fst (np_where cond a)))
     = length (filter (\<lambda>c. cond (a ! r ! c)) [0..<length (a ! r)])"
proof -
  have "map fst (np_where cond a)
          = concat (map (\<lambda>(q, row). map (\<lambda>c. q) (filter (\<lambda>c. cond (row ! c)) [0..<length row]))
                        (enumerate 0 a))"
    by (simp add: np_where_def map_concat comp_def case_prod_unfold)
  then show ?thesis
    using count_concat_enumerate [of r "\<lambda>row. filter (\<lambda>c. cond (row ! c)) [0..<length row]" 0 a]
      assms by simp
qed

lemma bincount_nth:
  assumes "r < ml"
  shows "bincount x ml ! r = length (filter (\<lambda>y. y = r) x)"
proof -
  have "r < max ml (fold (\<lambda>y m. max (Suc y) m) x 0)" using assms by simp
  then show ?thesis unfolding bincount_def by (simp del: max_less_iff_conj)
qed

lemma length_bincount: "ml \<le> length (bincount x ml)"
  by (simp add: bincount_def)

lemma mol_getitem_valid:
  "0 \<le> j \<Longrightarrow> j < int (length ats) \<Longrightarrow> mol_getitem ats (1 + j) = Inr (nat j)"
  by (auto simp: mol_getitem_def)

lemma assign_loop_result:
  "distinct (map fst ps) \<Longrightarrow> \<forall>p \<in> set ps. 0 \<le> fst p \<and> fst p < int (length ats) \<Longrightarrow>
   \<exists>ats'. assign_loop ats ps = Inr ats' \<and> length ats' = length ats \<and>
     (\<forall>k < length ats. ats' ! k =
        (case map_of ps (int k) of
           None \<Rightarrow> ats ! k
         | Some l \<Rightarrow> (ats ! k)\<lparr>topology_prop := Some l\<rparr>))"
proof (induction ps arbitrary: ats)
  case Nil
  then show ?case by simp
next
  case (Cons p ps)
  obtain j l where p: "p = (j, l)" by (cases p)
  have j: "0 \<le> j" "j < int (length ats)" using Cons.prems(2) by (auto simp: p)
  let ?ats1 = "ats[nat j := (ats ! nat j)\<lparr>topology_prop := Some l\<rparr>]"
  have d: "distinct (map fst ps)" and nin: "j \<notin> fst ` set ps"
    using Cons.prems(1) by (auto simp: p)
  have v: "\<forall>p \<in> set ps. 0 \<le> fst p \<and> fst p < int (length ?ats1)"
    using Cons.prems(2) by simp
  from Cons.IH [OF d v] obtain ats' where
    run: "assign_loop ?ats1 ps = Inr ats'" and len: "length ats' = length ats"
    and nth: "\<forall>k < length ats. ats' ! k =
        (case map_of ps (int k) of
           None \<Rightarrow> ?ats1 ! k
         | Some l' \<Rightarrow> (?ats1 ! k)\<lparr>topology_prop := Some l'\<rparr>)"
    by auto
  have none: "map_of ps j = None" using nin by (simp add: map_of_eq_None_iff)
  have "assign_loop ats (p # ps) = Inr ats'"
    using run j by (simp add: p mol_getitem_valid)
  moreover have "ats' ! k =
        (case map_of (p # ps) (int k) of
           None \<Rightarrow> ats ! k
         | Some l' \<Rightarrow> (ats ! k)\<lparr>topology_prop := Some l'\<rparr>)" if k: "k < length ats" for k
  proof (cases "int k = j")
    case True
    then have kj: "k = nat j" by simp
    show ?thesis using nth k none j by (simp add: p True kj)
  next
    case False
    then have "nat j \<noteq> k" using j by auto
    then show ?thesis using nth k False by (cases "map_of ps (int k)") (simp_all add: p)
  qed
  ultimately show ?case using len by blast
qed

lemma count_eq_upt: "length (filter (\<lambda>c. c = r) [0..<m]) = (if r < m then 1 else 0)"
  by (induction m) auto

lemma count_with_self:
  assumes "r < m"
  shows "length (filter (\<lambda>c. c = r \<or> P c) [0..<m])
           = 1 + length (filter (\<lambda>c. c \<noteq> r \<and> P c) [0..<m])"
proof -
  have "length (filter (\<lambda>c. c = r \<or> P c) [0..<m])
          = length (filter (\<lambda>c. c = r) [0..<m]) + length (filter (\<lambda>c. c \<noteq> r \<and> P c) [0..<m])"
    by (induction m) auto
  then show ?thesis using assms by (simp add: count_eq_upt)
qed

lemma zip_take_right: "zip xs ys = zip xs (take (length xs) ys)"
proof (induction xs arbitrary: ys)
  case Nil
  then show ?case by simp
next
  case (Cons x xs)
  then show ?case by (cases ys) simp_all
qed

lemma str_int_0: "str_int 0 = ''0''"
  by (simp add: str_int_def digit_char_def)

lemma sqrt_9: "sqrt 9 = 3"
  using real_sqrt_abs [of 3] by simp

text \<open>
  Claim C5, as stated, fails: the count is not strict. The two core atoms of the example
  are exactly \<open>max_dist\<close> apart; no other core atom lies strictly within \<open>max_dist\<close> of
  either, and both get the label of one neighbour.
\<close>

theorem assign_topology_counterexample:
  "map_sum id (\<lambda>s. map topology_prop (atoms (mol s))) (assign_topology ex_engine)
     = Inr [Some ''1_neighbours'', Some ''1_neighbours'', None, None, None, None, None] \<and>
   euclidean (xyz_coords ex_engine ! 0) (xyz_coords ex_engine ! 1) = max_dist ex_engine \<and>
   \<not> euclidean (xyz_coords ex_engine ! 0) (xyz_coords ex_engine ! 1) < max_dist ex_engine"
  by (simp add: assign_topology_def np_take_def ex_fields cdist_def fill_diagonal_def
      np_where_def bincount_def get_topology_def mol_getitem_def ex_mol_def ex_atoms_def
      ex_atom_def enumerate_eq_zip sqrt_9 str_int_def digit_char_def ex_engine_def)

text \<open>
  Claim C5, amended. For an engine whose core indices are distinct 0-based indices of
  atoms, \<open>assign_topology\<close> does not fail; it writes to every core atom, under the key
  \<open>topology\<close>, the label of the number of the other core atoms at a distance of at most
  \<open>max_dist\<close> (the bound included): the entry of the topology mapping when the number is
  a key, the numeral followed by \<open>_neighbours\<close> otherwise, so \<open>0_neighbours\<close> for a core
  atom without such a neighbour when the mapping has no key 0. Nothing else changes.
\<close>

theorem assign_topology_labels:
  assumes valid: "list_all (\<lambda>k. 0 \<le> k \<and> k < int (length (xyz_coords self))) (core_idx self)"
      and same: "length (atoms (mol self)) = length (xyz_coords self)"
      and dist: "distinct (core_idx self)"
  shows "\<exists>ats. assign_topology self = Inr (self\<lparr>mol := (mol self)\<lparr>atoms := ats\<rparr>\<rparr>) \<and>
          length ats = length (atoms (mol self)) \<and>
          (\<forall>r < length (core_idx self).
             ats ! nat (core_idx self ! r) =
               (atoms (mol self) ! nat (core_idx self ! r))\<lparr>topology_prop := Some
                  (case topology self (int (neighbours_within self r)) of
                     Some label \<Rightarrow> label
                   | None \<Rightarrow> str_int (int (neighbours_within self r)) @ ''_neighbours'')\<rparr> \<and>
             (neighbours_within self r = 0 \<and> topology self 0 = None \<longrightarrow>
                topology_prop (ats ! nat (core_idx self ! r)) = Some ''0_neighbours'')) \<and>
          (\<forall>k < length ats. int k \<notin> set (core_idx self) \<longrightarrow> ats ! k = atoms (mol self) ! k)"
proof -
  define i where "i = core_idx self"
  define xyz where "xyz = xyz_coords self"
  define md where "md = max_dist self"
  define m where "m = length i"
  define xa where "xa = map (\<lambda>k. xyz ! nat k) i"
  define dist where "dist = fill_diagonal (cdist xa xa) md"
  define labels where "labels = get_topology self
      (map (\<lambda>c. int c - 1) (bincount (map fst (np_where (\<lambda>d. d \<le> md) dist)) m))"
  define lab where "lab = (\<lambda>r. case topology self (int (neighbours_within self r)) of
                     Some label \<Rightarrow> label
                   | None \<Rightarrow> str_int (int (neighbours_within self r)) @ ''_neighbours'')"
  have take: "np_take xyz i = Inr xa"
    using valid unfolding i_def xyz_def xa_def by (rule np_take_valid)
  have run: "assign_topology self
      = bind_err (assign_loop (atoms (mol self)) (zip i labels))
          (\<lambda>ats. Inr (self\<lparr>mol := (mol self)\<lparr>atoms := ats\<rparr>\<rparr>))"
    using take
    by (simp add: assign_topology_def Let_def i_def [symmetric] xyz_def [symmetric]
        md_def [symmetric] m_def [symmetric] dist_def [symmetric] labels_def [symmetric])
  have len_xa: "length xa = m" by (simp add: xa_def m_def)
  have row: "dist ! r = (map (euclidean (xa ! r)) xa)[r := md]" if "r < m" for r
    using that by (simp add: dist_def fill_diagonal_nth cdist_def len_xa)
  have len_dist: "length dist = m" by (simp add: dist_def cdist_def len_xa)
  have cnt: "bincount (map fst (np_where (\<lambda>d. d \<le> md) dist)) m ! r
               = 1 + neighbours_within self r" if r: "r < m" for r
  proof -
    have "bincount (map fst (np_where (\<lambda>d. d \<le> md) dist)) m ! r
            = length (filter (\<lambda>c. dist ! r ! c \<le> md) [0..<length (dist ! r)])"
      using r unfolding bincount_nth [OF r] by (intro np_where_count) (simp add: len_dist)
    also have "\<dots> = length (filter (\<lambda>c. c = r \<or> euclidean (xa ! r) (xa ! c) \<le> md) [0..<m])"
      using r by (intro arg_cong [where f = length] filter_cong)
          (auto simp: row len_xa nth_list_update)
    also have "\<dots> = 1 + length (filter (\<lambda>c. c \<noteq> r \<and> euclidean (xa ! r) (xa ! c) \<le> md) [0..<m])"
      using r by (rule count_with_self)
    also have "length (filter (\<lambda>c. c \<noteq> r \<and> euclidean (xa ! r) (xa ! c) \<le> md) [0..<m])
                 = neighbours_within self r"
      unfolding neighbours_within_def i_def [symmetric] xyz_def [symmetric] md_def [symmetric]
        m_def [symmetric]
      using r by (intro arg_cong [where f = length] filter_cong) (auto simp: xa_def m_def)
    finally show ?thesis .
  qed
  have len_labels: "m \<le> length labels"
    by (simp add: labels_def get_topology_def length_bincount)
  have label_nth: "labels ! r = lab r" if r: "r < m" for r
  proof -
    have "r < length (bincount (map fst (np_where (\<lambda>d. d \<le> md) dist)) m)"
      using r length_bincount [of m] by (meson less_le_trans)
    moreover have "int (bincount (map fst (np_where (\<lambda>d. d \<le> md) dist)) m ! r) - 1
                     = int (neighbours_within self r)"
      using cnt [OF r] by simp
    ultimately show ?thesis
      by (simp add: labels_def get_topology_def lab_def split: option.splits)
  qed
  define ps where "ps = zip i (take m labels)"
  have zip: "zip i labels = ps"
    unfolding ps_def m_def by (rule zip_take_right)
  have len_take: "length (take m labels) = length i"
    using len_labels by (simp add: m_def)
  have fst_ps: "map fst ps = i"
    unfolding ps_def using len_take by simp
  have d: "distinct (map fst ps)" using dist by (simp add: fst_ps i_def)
  have v: "\<forall>p \<in> set ps. 0 \<le> fst p \<and> fst p < int (length (atoms (mol self)))"
  proof
    fix p assume "p \<in> set ps"
    then have "fst p \<in> set i" using fst_ps by (metis image_eqI set_map)
    then show "0 \<le> fst p \<and> fst p < int (length (atoms (mol self)))"
      using valid by (simp add: list_all_iff i_def same)
  qed
  from assign_loop_result [OF d v] obtain ats where
    loop: "assign_loop (atoms (mol self)) ps = Inr ats"
    and len: "length ats = length (atoms (mol self))"
    and nth: "\<forall>k < length (atoms (mol self)). ats ! k =
        (case map_of ps (int k) of
           None \<Rightarrow> atoms (mol self) ! k
         | Some l \<Rightarrow> (atoms (mol self) ! k)\<lparr>topology_prop := Some l\<rparr>)"
    by blast
  have core: "ats ! nat (i ! r) = (atoms (mol self) ! nat (i ! r))\<lparr>topology_prop := Some (lab r)\<rparr>"
    if r: "r < m" for r
  proof -
    have ir: "0 \<le> i ! r" "i ! r < int (length (atoms (mol self)))"
      using valid r by (simp_all add: list_all_length i_def m_def same)
    have "map_of ps (i ! r) = Some (take m labels ! r)"
      unfolding ps_def using len_take dist r
      by (intro map_of_zip_nth) (simp_all add: i_def m_def)
    then have "map_of ps (int (nat (i ! r))) = Some (lab r)"
      using ir r by (simp add: label_nth)
    then show ?thesis using nth ir by simp
  qed
  have other: "ats ! k = atoms (mol self) ! k" if k: "k < length ats" "int k \<notin> set i" for k
  proof -
    have "map_of ps (int k) = None"
      using k(2) fst_ps by (metis map_of_eq_None_iff set_map)
    then show ?thesis using nth k(1) len by simp
  qed
  have zero: "topology_prop (ats ! nat (i ! r)) = Some ''0_neighbours''"
    if "r < m" "neighbours_within self r = 0" "topology self 0 = None" for r
    using core [OF that(1)] that(2,3) by (simp add: lab_def str_int_0)
  have "assign_topology self = Inr (self\<lparr>mol := (mol self)\<lparr>atoms := ats\<rparr>\<rparr>)"
    using run loop unfolding zip by simp
  then show ?thesis
    using len core other zero
    unfolding i_def [symmetric] m_def [symmetric]
    by (intro exI [of _ ats]) (simp add: lab_def)
qed

theorem assign_topology_labels_witness:
  "list_all (\<lambda>k. 0 \<le> k \<and> k < int (length (xyz_coords (ex_engine\<lparr>max_dist := 2\<rparr>))))
     (core_idx (ex_engine\<lparr>max_dist := 2\<rparr>)) \<and>
   length (atoms (mol (ex_engine\<lparr>max_dist := 2\<rparr>))) = length (xyz_coords (ex_engine\<lparr>max_dist := 2\<rparr>)) \<and>
   distinct (core_idx (ex_engine\<lparr>max_dist := 2\<rparr>)) \<and>
   neighbours_within (ex_engine\<lparr>max_dist := 2\<rparr>) 1 = 0 \<and>
   (\<exists>ats. assign_topology (ex_engine\<lparr>max_dist := 2\<rparr>)
            = Inr (ex_engine\<lparr>max_dist := 2, mol := ex_mol\<lparr>atoms := ats\<rparr>\<rparr>) \<and>
          topology_prop (ats ! 1) = Some ''0_neighbours'' \<and> ats ! 2 = ex_atoms ! 2)"
proof -
  let ?e = "ex_engine\<lparr>max_dist := 2\<rparr>"
  have a: "list_all (\<lambda>k. 0 \<le> k \<and> k < int (length (xyz_coords ?e))) (core_idx ?e)"
    by (simp add: ex_fields)
  have b: "length (atoms (mol ?e)) = length (xyz_coords ?e)"
    by (simp add: ex_fields ex_mol_def ex_atoms_def)
  have c: "distinct (core_idx ?e)" by (simp add: ex_fields)
  have n: "neighbours_within ?e 1 = 0"
    by (simp add: neighbours_within_def ex_fields sqrt_9)
  have t: "topology ?e 0 = None" by (simp add: ex_engine_def)
  from assign_topology_labels [OF a b c] obtain ats where
    run: "assign_topology ?e = Inr (?e\<lparr>mol := (mol ?e)\<lparr>atoms := ats\<rparr>\<rparr>)"
    and len: "length ats = length (atoms (mol ?e))"
    and lab: "\<forall>r < length (core_idx ?e).
             (neighbours_within ?e r = 0 \<and> topology ?e 0 = None \<longrightarrow>
                topology_prop (ats ! nat (core_idx ?e ! r)) = Some ''0_neighbours'')"
    and oth: "\<forall>k < length ats. int k \<notin> set (core_idx ?e) \<longrightarrow> ats ! k = atoms (mol ?e) ! k"
    by blast
  have "(1::nat) < length (core_idx ?e)" by (simp add: ex_fields)
  with lab n t have "topology_prop (ats ! nat (core_idx ?e ! 1)) = Some ''0_neighbours''"
    by blast
  then have l1: "topology_prop (ats ! 1) = Some ''0_neighbours''" by (simp add: ex_fields)
  from oth len have l2: "ats ! 2 = ex_atoms ! 2"
    by (simp add: ex_fields ex_mol_def ex_atoms_def)
  from run have "assign_topology ?e = Inr (ex_engine\<lparr>max_dist := 2, mol := ex_mol\<lparr>atoms := ats\<rparr>\<rparr>)"
    by (simp add: ex_fields)
  with a b c n l1 l2 show ?thesis by blast
qed

subsection \<open>\<open>get_pairs_closest\<close> with one pair per core atom\<close>

lemma argsort_length [simp]: "length (argsort x) = length x"
  by (simp add: argsort_def)

lemma argsort_set [simp]: "set (argsort x) = {0..<length x}"
  by (simp add: argsort_def)

lemma argsort_distinct [simp]: "distinct (argsort x)"
  by (simp add: argsort_def)

lemma argsort_sorted: "sorted (map (\<lambda>i. x ! i) (argsort x))"
  by (simp add: argsort_def)

lemma take_sorted_wrt:
  assumes "sorted_wrt R ys" "p \<in> set (take k ys)" "q \<in> set ys" "q \<notin> set (take k ys)"
  shows "R p q"
proof -
  from assms(2) obtain u where u: "u < length (take k ys)" "take k ys ! u = p"
    by (auto simp: in_set_conv_nth)
  from assms(3) obtain v where v: "v < length ys" "ys ! v = q"
    by (auto simp: in_set_conv_nth)
  have "k \<le> v"
  proof (rule ccontr)
    assume "\<not> k \<le> v"
    then have "v < length (take k ys)" "take k ys ! v = q" using v by simp_all
    then have "q \<in> set (take k ys)" by (metis nth_mem)
    with assms(4) show False by contradiction
  qed
  with u have "u < v" "ys ! u = p" by simp_all
  with assms(1) v show ?thesis by (metis sorted_wrt_nth_less)
qed

lemma core_lig_rows_valid:
  assumes lig: "lig_idx = Sequence js \<or> lig_idx = Iterator js"
      and small: "int64 (int (length (xyz_coords self)))"
      and anchors: "list_all (\<lambda>x. 1 \<le> x \<and> x \<le> int (length (xyz_coords self))) js"
      and cores: "list_all (\<lambda>k. 0 \<le> k \<and> k < int (length (xyz_coords self))) (core_idx self)"
  shows "core_lig_rows self lig_idx =
           Inr (map (\<lambda>k. xyz_coords self ! nat k) (core_idx self),
                map (\<lambda>x. xyz_coords self ! nat (x - 1)) js)"
proof -
  have i64: "list_all int64 js"
    using anchors small by (auto simp: list_all_iff int64_def)
  then have arr: "as_array lig_idx 0 = Inr (Arr1 js)"
    by (simp add: as_array_iterable [OF lig])
  have dec: "map (\<lambda>x. wrap64 (x - 1)) js = map (\<lambda>x. x - 1) js"
    using i64 anchors by (auto simp: list_all_iff wrap64_pred)
  have "list_all (\<lambda>k. 0 \<le> k \<and> k < int (length (xyz_coords self))) (map (\<lambda>x. x - 1) js)"
    using anchors by (auto simp: list_all_iff)
  then have tj: "np_take (xyz_coords self) (map (\<lambda>x. x - 1) js)
                   = Inr (map (\<lambda>k. xyz_coords self ! nat k) (map (\<lambda>x. x - 1) js))"
    by (rule np_take_valid)
  show ?thesis
    by (simp add: core_lig_rows_def arr np_take_valid [OF cores] dec tj comp_def)
qed

lemma ex_rows_534:
  "core_lig_rows ex_engine (Sequence [5, 3, 4])
     = Inr ([(0, 0, 0), (3, 0, 0)], [(10, 0, 0), (1, 0, 0), (- 1, 0, 0)])"
  by (simp add: core_lig_rows_def as_array_def np_take_def ex_fields wrap64_id int64_small)

lemma ex_rows_3:
  "core_lig_rows ex_engine (Sequence [3]) = Inr ([(0, 0, 0), (3, 0, 0)], [(1, 0, 0)])"
  by (simp add: core_lig_rows_def as_array_def np_take_def ex_fields wrap64_id int64_small)

text \<open>
  Claim C1, as stated, fails: the entries of a record are not 1-based atom indices. For
  the core atoms 1 and 2 and the anchors 5, 3, 4 the records are 0, 1, 2 and 1, 1, 2:
  the 0-based index of the core atom, then the 0-based positions in the anchor list of
  the two nearest anchors (atoms 3 and 4). With the single anchor 3 a record has one
  ligand entry.
\<close>

theorem get_pairs_closest_single_counterexample:
  "get_pairs_closest ex_engine (Sequence [5, 3, 4]) 1 = Inr [[0, 1, 2], [1, 1, 2]] \<and>
   get_pairs_closest ex_engine (Sequence [5, 3, 4]) 1 \<noteq> Inr [[1, 3, 4], [2, 3, 4]] \<and>
   get_pairs_closest ex_engine (Sequence [3]) 1 = Inr [[0, 0], [1, 0]]"
  by (simp add: get_pairs_closest_def ex_rows_534 ex_rows_3 cdist_def argsort_def ex_fields)

text \<open>
  Claim C1, amended. For a structure of fewer than \<open>2\<^sup>6\<^sup>3\<close> atoms, valid 0-based core
  indices and a list or iterator of valid 1-based anchor indices, \<open>get_pairs_closest\<close>
  with \<open>n_pairs = 1\<close> returns one record per core atom, in the order of \<open>core_idx\<close>: the
  0-based index of the core atom, followed by the 0-based positions in the anchor list
  of its two nearest anchors by Euclidean distance (of all anchors when there are fewer
  than two), the nearer one first.
\<close>

theorem get_pairs_closest_single:
  assumes lig: "lig_idx = Sequence js \<or> lig_idx = Iterator js"
      and small: "int64 (int (length (xyz_coords self)))"
      and anchors: "list_all (\<lambda>x. 1 \<le> x \<and> x \<le> int (length (xyz_coords self))) js"
      and cores: "list_all (\<lambda>k. 0 \<le> k \<and> k < int (length (xyz_coords self))) (core_idx self)"
  shows "\<exists>rows. get_pairs_closest self lig_idx 1 = Inr rows \<and>
           length rows = length (core_idx self) \<and>
           (\<forall>r < length (core_idx self).
              \<exists>ps. rows ! r = core_idx self ! r # map int ps \<and>
                   length ps = min 2 (length js) \<and> distinct ps \<and>
                   set ps \<subseteq> {0..<length js} \<and>
                   sorted (map (pair_dist self js r) ps) \<and>
                   (\<forall>q < length js. q \<notin> set ps \<longrightarrow>
                      (\<forall>p \<in> set ps. pair_dist self js r p \<le> pair_dist self js r q)))"
proof -
  define i where "i = core_idx self"
  define xa where "xa = map (\<lambda>k. xyz_coords self ! nat k) i"
  define xb where "xb = map (\<lambda>x. xyz_coords self ! nat (x - 1)) js"
  define dist where "dist = cdist xa xb"
  define rows where "rows = map2 (\<lambda>c row. c # map int (take 2 (argsort row))) i dist"
  have run: "get_pairs_closest self lig_idx 1 = Inr rows"
    by (simp add: get_pairs_closest_def core_lig_rows_valid [OF lig small anchors cores]
        Let_def rows_def dist_def xa_def xb_def i_def)
  have len_dist: "length dist = length i" by (simp add: dist_def cdist_def xa_def)
  have len: "length rows = length i" by (simp add: rows_def len_dist)
  have row: "dist ! r = map (pair_dist self js r) [0..<length js]" if "r < length i" for r
    using that
    by (auto simp: dist_def cdist_def xa_def xb_def pair_dist_def i_def intro!: nth_equalityI)
  have main: "\<exists>ps. rows ! r = i ! r # map int ps \<and>
                   length ps = min 2 (length js) \<and> distinct ps \<and>
                   set ps \<subseteq> {0..<length js} \<and>
                   sorted (map (pair_dist self js r) ps) \<and>
                   (\<forall>q < length js. q \<notin> set ps \<longrightarrow>
                      (\<forall>p \<in> set ps. pair_dist self js r p \<le> pair_dist self js r q))"
    if r: "r < length i" for r
  proof -
    define a where "a = argsort (dist ! r)"
    define ps where "ps = take 2 a"
    have la: "length a = length js" by (simp add: a_def row [OF r])
    have sa: "set a = {0..<length js}" by (simp add: a_def row [OF r])
    have key: "dist ! r ! q = pair_dist self js r q" if "q < length js" for q
      using that by (simp add: row [OF r])
    have e: "map (\<lambda>q. dist ! r ! q) a = map (pair_dist self js r) a"
      using sa key by (intro map_cong) auto
    have "sorted (map (\<lambda>q. dist ! r ! q) a)"
      unfolding a_def by (rule argsort_sorted)
    then have srt: "sorted (map (pair_dist self js r) a)"
      by (simp only: e)
    then have sw: "sorted_wrt (\<lambda>p q. pair_dist self js r p \<le> pair_dist self js r q) a"
      by (simp add: sorted_map)
    have 1: "rows ! r = i ! r # map int ps"
      using r by (simp add: rows_def len_dist ps_def a_def)
    have 2: "length ps = min 2 (length js)" by (simp add: ps_def la min.commute)
    have 3: "distinct ps" by (simp add: ps_def a_def)
    have 4: "set ps \<subseteq> {0..<length js}"
      using set_take_subset [of 2 a] sa by (simp add: ps_def)
    have 5: "sorted (map (pair_dist self js r) ps)"
      using srt by (simp add: ps_def take_map [symmetric] sorted_wrt_take)
    have 6: "pair_dist self js r p \<le> pair_dist self js r q"
      if "q < length js" "q \<notin> set ps" "p \<in> set ps" for p q
      using take_sorted_wrt [OF sw, of p 2 q] that sa by (simp add: ps_def)
    from 1 2 3 4 5 6 show ?thesis by blast
  qed
  show ?thesis
    using run len main unfolding i_def by blast
qed

theorem get_pairs_closest_single_witness:
  "int64 (int (length (xyz_coords ex_engine))) \<and>
   list_all (\<lambda>x. 1 \<le> x \<and> x \<le> int (length (xyz_coords ex_engine))) [5, 3, 4] \<and>
   list_all (\<lambda>k. 0 \<le> k \<and> k < int (length (xyz_coords ex_engine))) (core_idx ex_engine) \<and>
   get_pairs_closest ex_engine (Sequence [5, 3, 4]) 1 = Inr [[0, 1, 2], [1, 1, 2]] \<and>
   (\<exists>rows ps. get_pairs_closest ex_engine (Sequence [5, 3, 4]) 1 = Inr rows \<and>
        length rows = 2 \<and> rows ! 1 = 1 # map int ps \<and> length ps = 2 \<and> distinct ps \<and>
        sorted (map (pair_dist ex_engine [5, 3, 4] 1) ps))"
proof -
  have a: "int64 (int (length (xyz_coords ex_engine)))"
    by (simp add: ex_fields int64_small)
  have b: "list_all (\<lambda>x. 1 \<le> x \<and> x \<le> int (length (xyz_coords ex_engine))) [5, 3, 4]"
    by (simp add: ex_fields)
  have c: "list_all (\<lambda>k. 0 \<le> k \<and> k < int (length (xyz_coords ex_engine))) (core_idx ex_engine)"
    by (simp add: ex_fields)
  have d: "get_pairs_closest ex_engine (Sequence [5, 3, 4]) 1 = Inr [[0, 1, 2], [1, 1, 2]]"
    by (simp add: get_pairs_closest_def ex_rows_534 cdist_def argsort_def ex_fields)
  from get_pairs_closest_single [of "Sequence [5, 3, 4]" "[5, 3, 4]" ex_engine, OF _ a b c]
  obtain rows where run: "get_pairs_closest ex_engine (Sequence [5, 3, 4]) 1 = Inr rows"
    and len: "length rows = length (core_idx ex_engine)"
    and each: "\<forall>r < length (core_idx ex_engine).
              \<exists>ps. rows ! r = core_idx ex_engine ! r # map int ps \<and>
                   length ps = min 2 (length [5, 3, 4 :: int]) \<and> distinct ps \<and>
                   set ps \<subseteq> {0..<length [5, 3, 4 :: int]} \<and>
                   sorted (map (pair_dist ex_engine [5, 3, 4] r) ps) \<and>
                   (\<forall>q < length [5, 3, 4 :: int]. q \<notin> set ps \<longrightarrow>
                      (\<forall>p \<in> set ps. pair_dist ex_engine [5, 3, 4] r p
                                       \<le> pair_dist ex_engine [5, 3, 4] r q))"
    by blast
  have "(1::nat) < length (core_idx ex_engine)" by (simp add: ex_fields)
  with each obtain ps where "rows ! 1 = core_idx ex_engine ! 1 # map int ps"
    "length ps = min 2 (length [5, 3, 4 :: int])" "distinct ps"
    "sorted (map (pair_dist ex_engine [5, 3, 4] 1) ps)"
    by blast
  then have "rows ! 1 = 1 # map int ps \<and> length ps = 2 \<and> distinct ps \<and>
        sorted (map (pair_dist ex_engine [5, 3, 4] 1) ps)"
    by (simp add: ex_fields)
  moreover have "length rows = 2" using len by (simp add: ex_fields)
  ultimately have "\<exists>rows ps. get_pairs_closest ex_engine (Sequence [5, 3, 4]) 1 = Inr rows \<and>
        length rows = 2 \<and> rows ! 1 = 1 # map int ps \<and> length ps = 2 \<and> distinct ps \<and>
        sorted (map (pair_dist ex_engine [5, 3, 4] 1) ps)"
    using run by blast
  with a b c d show ?thesis by blast
qed

subsection \<open>\<open>get_pairs_distance\<close>\<close>

lemma sqrt_less_iff_square: "0 < c \<Longrightarrow> sqrt x < c \<longleftrightarrow> x < c\<^sup>2"
  using real_sqrt_less_iff [of x "c\<^sup>2"] by simp

lemma ex_rows_single:
  "core_lig_rows (ex_engine\<lparr>core_idx := [0], ligand_count := 1\<rparr>) (Sequence [3])
     = Inr ([(0, 0, 0)], [(1, 0, 0)])"
  by (simp add: core_lig_rows_def as_array_def np_take_def ex_fields wrap64_id int64_small)

lemma ex_rows_34567:
  "core_lig_rows ex_engine (Sequence [3, 4, 5, 6, 7])
     = Inr ([(0, 0, 0), (3, 0, 0)],
            [(1, 0, 0), (- 1, 0, 0), (10, 0, 0), (- 10, 0, 0), (11, 0, 0)])"
  by (simp add: core_lig_rows_def as_array_def np_take_def ex_fields wrap64_id int64_small)

text \<open>
  Claim C2. With \<open>ligand_count = 2\<close>, the core atoms 1 and 2, the anchors 3 to 7 and the
  bound 7.5, two anchors lie strictly closer than the bound to core atom 1 and three to
  core atom 2, so that the claim has one record and three records emitted; the method
  raises \<open>ValueError\<close> instead, since its records hold pairs and \<open>np.array\<close> cannot store
  them. With \<open>ligand_count = 1\<close>, the core atom 1 and the single anchor 3 at distance 1,
  below the bound 5, the claim has one record emitted and the method returns the empty
  array: \<open>np.fill_diagonal\<close> has overwritten the one distance, which is not the distance
  of an atom to itself.
\<close>

theorem get_pairs_distance_raises:
  "get_pairs_distance ex_engine (Sequence [3, 4, 5, 6, 7]) (15 / 2) = Inl ValueError \<and>
   get_pairs_distance (ex_engine\<lparr>core_idx := [0], ligand_count := 1\<rparr>) (Sequence [3]) 5 = Inr [] \<and>
   pair_dist (ex_engine\<lparr>core_idx := [0], ligand_count := 1\<rparr>) [3] 0 0 < 5 \<and>
   core_idx (ex_engine\<lparr>core_idx := [0], ligand_count := 1\<rparr>) ! 0 \<noteq> [3] ! 0 - 1"
  by (simp add: get_pairs_distance_def np_array_records_def ex_rows_single ex_rows_34567
      cdist_def fill_diagonal_def np_where_def dict_of_def pair_dist_def ex_fields
      enumerate_eq_zip sqrt_less_iff_square power2_eq_square eval_nat_numeral)

subsection \<open>\<open>get_pairs_closest\<close> with several pairs per core atom\<close>

lemma sqrt_squares: "sqrt 100 = 10" "sqrt 121 = 11" "sqrt 144 = 12"
  using real_sqrt_abs [of 10] real_sqrt_abs [of 11] real_sqrt_abs [of 12] by simp_all

lemma ex_line_fields:
  "core_idx ex_line_engine = [0]" "ligand_count ex_line_engine = 3"
  "xyz_coords ex_line_engine = [(0, 0, 0), (1, 0, 0), (3, 0, 0), (10, 0, 0), (11, 0, 0), (12, 0, 0)]"
  by (simp_all add: ex_line_engine_def ex_line_atoms_def ex_atom_def)

lemma ex_line_rows:
  "core_lig_rows ex_line_engine (Sequence [2, 3, 4, 5, 6])
     = Inr ([(0, 0, 0)], [(1, 0, 0), (3, 0, 0), (10, 0, 0), (11, 0, 0), (12, 0, 0)])"
  by (simp add: core_lig_rows_def as_array_def np_take_def ex_line_fields wrap64_id int64_small)

text \<open>
  Claim C3. With \<open>n = 3\<close>, \<open>n_pairs = 3\<close> and five anchors at the distances 1, 3, 10, 11
  and 12 from the core atom, the pool of the claim holds all five anchors, and its
  three subsets of smallest norm are (0, 1, 2), (0, 1, 3) and (0, 1, 4). The method
  looks at the four nearest anchors only and returns (0, 2, 3) as the third subset,
  whose norm is larger than that of (0, 1, 4). No two distances and no two norms of the
  run are equal. With \<open>n_pairs = 2\<close>, below \<open>n\<close>, the method raises \<open>ValueError\<close>.
\<close>

theorem get_pairs_closest_small_pool:
  "get_pairs_closest ex_line_engine (Sequence [2, 3, 4, 5, 6]) 3
     = Inr [[0, 0, 1, 2], [0, 0, 1, 3], [0, 0, 2, 3]] \<and>
   linalg_norm (map (pair_dist ex_line_engine [2, 3, 4, 5, 6] 0) [0, 1, 4])
     < linalg_norm (map (pair_dist ex_line_engine [2, 3, 4, 5, 6] 0) [0, 2, 3]) \<and>
   distinct (map (pair_dist ex_line_engine [2, 3, 4, 5, 6] 0) [0, 1, 2, 3, 4]) \<and>
   distinct (map (\<lambda>c. linalg_norm (map (pair_dist ex_line_engine [2, 3, 4, 5, 6] 0) c))
                 (combinations [0, 1, 2, 3] 3)) \<and>
   get_pairs_closest ex_line_engine (Sequence [2, 3, 4, 5, 6]) 2 = Inl ValueError"
  by (simp add: get_pairs_closest_def ex_line_rows cdist_def argsort_def linalg_norm_def
      iter_repeat_def pair_dist_def ex_line_fields eval_nat_numeral Let_def sqrt_squares)

end
